theory Spec2Isabelle
  imports Complex_Main "HOL-Library.Sublist"
begin

section \<open>JavaScript values\<close>

text \<open>
  The chart handed to \<open>calculateAtmakarak\<close> is typed \<open>Record<string, any>\<close>: any
  JavaScript value can arrive. Values are modelled as the JSON-like fragment of the
  language plus \<open>undefined\<close>; an object is a plain object, given by the list of its
  own properties and read with \<open>map_of\<close>. Functions, symbols, getters, proxies and the
  string conversion of arrays are outside the model.

  A JavaScript number is a double. The code only compares degrees with each other and
  with the constants 0 and 360, and comparison of doubles is exact, so a finite number is
  modelled as the real it denotes; \<open>NaN\<close> and the two infinities are kept apart because
  every comparison with \<open>NaN\<close> is false.
\<close>

datatype jsnum = NaN | Fin real | PosInf | NegInf

datatype jsval =
    JUndefined
  | JNull
  | JBool bool
  | JNum jsnum
  | JStr string
  | JObj "(string \<times> jsval) list"

datatype js_error = TypeError

fun js_lt :: "jsnum \<Rightarrow> jsnum \<Rightarrow> bool" where
  "js_lt (Fin a) (Fin b) = (a < b)"
| "js_lt (Fin a) PosInf = True"
| "js_lt NegInf (Fin b) = True"
| "js_lt NegInf PosInf = True"
| "js_lt _ _ = False"

definition js_gt :: "jsnum \<Rightarrow> jsnum \<Rightarrow> bool" where
  "js_gt a b = js_lt b a"

definition isNaN :: "jsnum \<Rightarrow> bool" where
  "isNaN n = (n = NaN)"

definition js_le :: "jsnum \<Rightarrow> jsnum \<Rightarrow> bool" where
  "js_le a b = (\<not> isNaN a \<and> \<not> isNaN b \<and> \<not> js_lt b a)"

definition js_ge :: "jsnum \<Rightarrow> jsnum \<Rightarrow> bool" where
  "js_ge a b = js_le b a"

text \<open>Truthiness (\<open>!v\<close> is its negation) and the \<open>typeof\<close> operator.\<close>

fun truthy :: "jsval \<Rightarrow> bool" where
  "truthy JUndefined = False"
| "truthy JNull = False"
| "truthy (JBool b) = b"
| "truthy (JNum n) = (n \<noteq> NaN \<and> n \<noteq> Fin 0)"
| "truthy (JStr s) = (s \<noteq> [])"
| "truthy (JObj fs) = True"

fun typeof :: "jsval \<Rightarrow> string" where
  "typeof JUndefined = ''undefined''"
| "typeof JNull = ''object''"
| "typeof (JBool b) = ''boolean''"
| "typeof (JNum n) = ''number''"
| "typeof (JStr s) = ''string''"
| "typeof (JObj fs) = ''object''"

text \<open>
  Property read \<open>v[k]\<close>. It throws a TypeError on \<open>undefined\<close> and \<open>null\<close>, returns
  \<open>undefined\<close> for a missing property, and on a primitive looks the key up on the
  wrapper's prototype, which has none of the keys this program reads (\<open>meta\<close>, the planet
  codes, \<open>degree\<close>, \<open>rashi\<close>).
\<close>

fun get_prop :: "jsval \<Rightarrow> string \<Rightarrow> js_error + jsval" where
  "get_prop JUndefined k = Inl TypeError"
| "get_prop JNull k = Inl TypeError"
| "get_prop (JObj fs) k = Inr (case map_of fs k of None \<Rightarrow> JUndefined | Some v \<Rightarrow> v)"
| "get_prop v k = Inr JUndefined"

text \<open>
  Conversion to a string, as a template literal and \<open>String(v)\<close> apply it, can throw.
  It never does on a primitive. A plain object is converted by calling its \<open>toString\<close>
  and, when that is not callable, its \<open>valueOf\<close>. No value of this model is callable, so
  an own \<open>toString\<close> property hides the inherited method; the \<open>valueOf\<close> that is
  tried next is either an own property, not callable, or the inherited one, which returns
  the object itself; either way the conversion ends in a TypeError. Without an own
  \<open>toString\<close> the inherited method answers \<open>[object Object]\<close>.
\<close>

fun ToString_throws :: "jsval \<Rightarrow> bool" where
  "ToString_throws (JObj fs) = (map_of fs ''toString'' \<noteq> None)"
| "ToString_throws v = False"

text \<open>
  \<open>parseFloat(String(n))\<close> for a value \<open>n\<close> that is already a number: \<open>String\<close> prints
  the shortest decimal that reads back as the same double (\<open>NaN\<close>, \<open>Infinity\<close> and
  \<open>-Infinity\<close> print as their names, which \<open>parseFloat\<close> reads back), so the round trip
  returns the number.
\<close>

definition parseFloat_String :: "jsnum \<Rightarrow> jsnum" where
  "parseFloat_String n = n"

section \<open>The Atmakarak scan (validity-filtering version)\<close>

definition planets :: "string list" where
  "planets = [''Su'', ''Mo'', ''Ma'', ''Me'', ''Ju'', ''Ve'', ''Sa'']"

definition planetNames :: "string \<Rightarrow> string option" where
  "planetNames = map_of
     [(''Su'', ''Sun''), (''Mo'', ''Moon''), (''Ma'', ''Mars''), (''Me'', ''Mercury''),
      (''Ju'', ''Jupiter''), (''Ve'', ''Venus''), (''Sa'', ''Saturn'')]"

text \<open>The loop's mutable locals.\<close>

record scan_state =
  maxDegrees :: jsnum
  atmakarak :: string
  validPlanets :: "string list"

definition init_state :: scan_state where
  "init_state = \<lparr>maxDegrees = Fin 0, atmakarak = ''Su'', validPlanets = []\<rparr>"

text \<open>
  One iteration of \<open>for (const planet of planets)\<close>. The two \<open>else\<close> branches only log
  a warning and leave the locals as they are.
\<close>

definition scan_planet :: "jsval \<Rightarrow> scan_state \<Rightarrow> string \<Rightarrow> js_error + scan_state" where
  "scan_planet meta st planet =
     (case get_prop meta planet of
        Inl e \<Rightarrow> Inl e
      | Inr entry \<Rightarrow>
          if \<not> truthy entry then Inr st
          else (case get_prop entry ''degree'' of
                  Inl e \<Rightarrow> Inl e
                | Inr (JNum n) \<Rightarrow>
                    (let degree = parseFloat_String n in
                     if \<not> isNaN degree \<and> js_ge degree (Fin 0) \<and> js_le degree (Fin 360) then
                       (let st1 = st\<lparr>validPlanets := validPlanets st @ [planet]\<rparr> in
                        if js_gt degree (maxDegrees st1)
                        then Inr (st1\<lparr>maxDegrees := degree, atmakarak := planet\<rparr>)
                        else Inr st1)
                     else Inr st)
                | Inr _ \<Rightarrow> Inr st))"

fun scan_planets :: "jsval \<Rightarrow> scan_state \<Rightarrow> string list \<Rightarrow> js_error + scan_state" where
  "scan_planets meta st [] = Inr st"
| "scan_planets meta st (p # ps) =
     (case scan_planet meta st p of
        Inl e \<Rightarrow> Inl e
      | Inr st' \<Rightarrow> scan_planets meta st' ps)"

text \<open>The body of the \<open>try\<close> block: \<open>Inl\<close> is an exception raised inside it.\<close>

definition calculateAtmakarak_try :: "jsval \<Rightarrow> js_error + string" where
  "calculateAtmakarak_try birthChart =
     (if \<not> truthy birthChart \<or> typeof birthChart \<noteq> ''object'' then Inr ''Sun''
      else (case get_prop birthChart ''meta'' of
              Inl e \<Rightarrow> Inl e
            | Inr meta \<Rightarrow>
                if \<not> truthy meta \<or> typeof meta \<noteq> ''object'' then Inr ''Sun''
                else (case scan_planets meta init_state planets of
                        Inl e \<Rightarrow> Inl e
                      | Inr st \<Rightarrow>
                          if length (validPlanets st) = 0 then Inr ''Sun''
                          else (case planetNames (atmakarak st) of
                                  None \<Rightarrow> Inr ''Sun''
                                | Some name \<Rightarrow> Inr (if name = [] then ''Sun'' else name)))))"

text \<open>The whole function: the \<open>catch\<close> block turns every exception into \<open>Sun\<close>.\<close>

definition calculateAtmakarak :: "jsval \<Rightarrow> string" where
  "calculateAtmakarak birthChart =
     (case calculateAtmakarak_try birthChart of Inl e \<Rightarrow> ''Sun'' | Inr name \<Rightarrow> name)"

text \<open>
  The reading of the specification's "present, numeric and within [0, 360]": the degree
  of planet \<open>p\<close> in a chart when the chart is an object whose \<open>meta\<close> is an object whose
  entry \<open>p\<close> is an object whose \<open>degree\<close> is a finite number in the closed range, and
  \<open>None\<close> in every other case.
\<close>

fun spec_entry_degree :: "jsval \<Rightarrow> real option" where
  "spec_entry_degree (JObj es) =
     (case map_of es ''degree'' of
        Some (JNum (Fin d)) \<Rightarrow> if 0 \<le> d \<and> d \<le> 360 then Some d else None
      | _ \<Rightarrow> None)"
| "spec_entry_degree _ = None"

fun spec_meta_degree :: "jsval \<Rightarrow> string \<Rightarrow> real option" where
  "spec_meta_degree (JObj ms) p = (case map_of ms p of Some e \<Rightarrow> spec_entry_degree e | None \<Rightarrow> None)"
| "spec_meta_degree _ p = None"

fun spec_valid_degree :: "jsval \<Rightarrow> string \<Rightarrow> real option" where
  "spec_valid_degree (JObj cs) p = (case map_of cs ''meta'' of Some m \<Rightarrow> spec_meta_degree m p | None \<Rightarrow> None)"
| "spec_valid_degree _ p = None"

text \<open>Vocabulary for bounds on an optional degree, used by the lemmas on the scan.\<close>

definition below :: "real \<Rightarrow> real option \<Rightarrow> bool" where
  "below b v = (case v of None \<Rightarrow> True | Some d \<Rightarrow> d < b)"

definition at_most :: "real \<Rightarrow> real option \<Rightarrow> bool" where
  "at_most b v = (case v of None \<Rightarrow> True | Some d \<Rightarrow> d \<le> b)"

text \<open>\<open>planetNames[code] || 'Sun'\<close>, the last line of both versions.\<close>

definition name_of :: "string \<Rightarrow> string" where
  "name_of code =
     (case planetNames code of
        None \<Rightarrow> ''Sun''
      | Some name \<Rightarrow> if name = [] then ''Sun'' else name)"

section \<open>The Atmakarak scan (coercing version)\<close>

text \<open>
  The second \<open>calculateAtmakarak\<close> of the repository has no guard, no filter and no
  \<open>try\<close>: it reads \<open>meta[planet]?.degree ?? '0'\<close> and compares
  \<open>parseFloat(String(...))\<close> of it. On a number the round trip is the number and the
  string \<open>'0'\<close> parses to 0; \<open>String(v)\<close> throws on an object that cannot be
  converted; what \<open>parseFloat(String(v))\<close> gives on any other value is left to the
  parameter \<open>pf\<close>.
\<close>

definition nullish :: "jsval \<Rightarrow> bool" where
  "nullish v = (v = JUndefined \<or> v = JNull)"

definition parseFloat_String_any :: "(jsval \<Rightarrow> jsnum) \<Rightarrow> jsval \<Rightarrow> jsnum" where
  "parseFloat_String_any pf v =
     (case v of
        JNum n \<Rightarrow> parseFloat_String n
      | JStr s \<Rightarrow> if s = ''0'' then Fin 0 else pf v
      | _ \<Rightarrow> pf v)"

definition coerce_planet ::
  "(jsval \<Rightarrow> jsnum) \<Rightarrow> jsval \<Rightarrow> jsnum \<times> string \<Rightarrow> string \<Rightarrow> js_error + jsnum \<times> string" where
  "coerce_planet pf meta st planet =
     (case get_prop meta planet of
        Inl e \<Rightarrow> Inl e
      | Inr entry \<Rightarrow>
          (case (if nullish entry then Inr JUndefined else get_prop entry ''degree'') of
             Inl e \<Rightarrow> Inl e
           | Inr dv \<Rightarrow>
               (let v = (if nullish dv then JStr ''0'' else dv) in
                if ToString_throws v then Inl TypeError
                else
                  (let degree = parseFloat_String_any pf v in
                   if js_gt degree (fst st) then Inr (degree, planet) else Inr st))))"

fun coerce_planets ::
  "(jsval \<Rightarrow> jsnum) \<Rightarrow> jsval \<Rightarrow> jsnum \<times> string \<Rightarrow> string list \<Rightarrow> js_error + jsnum \<times> string" where
  "coerce_planets pf meta st [] = Inr st"
| "coerce_planets pf meta st (p # ps) =
     (case coerce_planet pf meta st p of
        Inl e \<Rightarrow> Inl e
      | Inr st' \<Rightarrow> coerce_planets pf meta st' ps)"

definition calculateAtmakarak_coercing :: "(jsval \<Rightarrow> jsnum) \<Rightarrow> jsval \<Rightarrow> js_error + string" where
  "calculateAtmakarak_coercing pf birthChart =
     (case get_prop birthChart ''meta'' of
        Inl e \<Rightarrow> Inl e
      | Inr meta \<Rightarrow>
          (case coerce_planets pf meta (Fin 0, ''Su'') planets of
             Inl e \<Rightarrow> Inl e
           | Inr st \<Rightarrow> Inr (name_of (snd st))))"

section \<open>Input validation\<close>

text \<open>
  The two regular expressions \<open>/^\d{4}-\d{2}-\d{2}$/\<close> and \<open>/^\d{2}:\d{2}:\d{2}$/\<close>,
  segment by segment; \<open>\d\<close> is an ASCII digit and \<open>$\<close>, without the multiline flag,
  is the end of the string.
\<close>

definition is_digit :: "char \<Rightarrow> bool" where
  "is_digit c = (c \<in> set ''0123456789'')"

definition digits :: "nat \<Rightarrow> string \<Rightarrow> bool" where
  "digits n s = (length s = n \<and> list_all is_digit s)"

definition dateRegex_test :: "string \<Rightarrow> bool" where
  "dateRegex_test s =
     (digits 4 (take 4 s) \<and> take 1 (drop 4 s) = ''-'' \<and>
      digits 2 (take 2 (drop 5 s)) \<and> take 1 (drop 7 s) = ''-'' \<and>
      digits 2 (drop 8 s))"

definition timeRegex_test :: "string \<Rightarrow> bool" where
  "timeRegex_test s =
     (digits 2 (take 2 s) \<and> take 1 (drop 2 s) = '':'' \<and>
      digits 2 (take 2 (drop 3 s)) \<and> take 1 (drop 5 s) = '':'' \<and>
      digits 2 (drop 6 s))"

text \<open>\<open>s.split(':')\<close> and \<open>Number\<close> on a string of digits.\<close>

fun split_on :: "char \<Rightarrow> string \<Rightarrow> string list" where
  "split_on c [] = [] # []"
| "split_on c (x # xs) =
     (if x = c then [] # split_on c xs
      else (case split_on c xs of
              [] \<Rightarrow> [x] # []
            | y # ys \<Rightarrow> (x # y) # ys))"

definition digit_val :: "char \<Rightarrow> int" where
  "digit_val c = int (of_char c) - 48"

definition Number_digits :: "string \<Rightarrow> int" where
  "Number_digits s = foldl (\<lambda>a c. 10 * a + digit_val c) 0 s"

text \<open>
  \<open>new Date(dateString)\<close> on a string that passed the date pattern is left to the
  parameter \<open>pd\<close>, because which day numbers an engine accepts and the local time zone
  that \<open>getFullYear\<close> reads are outside this program: \<open>pd s = None\<close> is an invalid
  date (\<open>getTime()\<close> is \<open>NaN\<close>, and so is the year), \<open>pd s = Some y\<close> a date whose
  local full year is \<open>y\<close>.
\<close>

text \<open>
  The parser of the V8 engine, which runs this program under Node.js, on a string that
  has passed the date pattern: it accepts a month from 01 to 12 with a day from 01 to 31,
  whatever the month, and the result is midnight UTC of that day, a day past the end of
  its month counting into the next month (which never leaves the year). \<open>getFullYear\<close>
  reads the year in the local zone: it is the written year when the process runs in UTC
  or in a zone ahead of UTC, which is what this definition models.
\<close>

definition v8_date_year :: "string \<Rightarrow> int option" where
  "v8_date_year s =
     (let month = Number_digits (take 2 (drop 5 s)); day = Number_digits (drop 8 s) in
      if 1 \<le> month \<and> month \<le> 12 \<and> 1 \<le> day \<and> day \<le> 31
      then Some (Number_digits (take 4 s)) else None)"

definition getFullYear :: "int option \<Rightarrow> jsnum" where
  "getFullYear date = (case date of None \<Rightarrow> NaN | Some y \<Rightarrow> Fin (real_of_int y))"

text \<open>
  Each block of \<open>validateAstrologyInput\<close> only pushes onto \<open>errors\<close>; a block is modelled
  by the list of messages it pushes, and the function returns them in the order of the
  blocks.
\<close>

definition check_date :: "(string \<Rightarrow> int option) \<Rightarrow> jsval \<Rightarrow> string list" where
  "check_date pd dateString =
     (case dateString of
        JStr s \<Rightarrow>
          if \<not> truthy dateString then [''Date string is required'']
          else if \<not> dateRegex_test s then [''Date must be in YYYY-MM-DD format'']
          else (let date = pd s; year = getFullYear date in
                (if date = None then [''Invalid date provided''] else []) @
                (if js_lt year (Fin 1900) \<or> js_gt year (Fin 2100)
                 then [''Date must be between 1900 and 2100''] else []))
      | _ \<Rightarrow> [''Date string is required''])"

definition check_time :: "jsval \<Rightarrow> string list" where
  "check_time timeString =
     (case timeString of
        JStr s \<Rightarrow>
          if \<not> truthy timeString then [''Time string is required'']
          else if \<not> timeRegex_test s then [''Time must be in HH:MM:SS format'']
          else (case map Number_digits (split_on CHR '':'' s) of
                  hours # minutes # seconds # rest \<Rightarrow>
                    (if hours < 0 \<or> hours > 23 then [''Hours must be between 00 and 23''] else []) @
                    (if minutes < 0 \<or> minutes > 59 then [''Minutes must be between 00 and 59''] else []) @
                    (if seconds < 0 \<or> seconds > 59 then [''Seconds must be between 00 and 59''] else [])
                | _ \<Rightarrow> [])
      | _ \<Rightarrow> [''Time string is required''])"

definition check_lat :: "jsval \<Rightarrow> string list" where
  "check_lat lat =
     (case lat of
        JNum n \<Rightarrow>
          if isNaN n then [''Latitude must be a valid number'']
          else if js_lt n (Fin (- 90)) \<or> js_gt n (Fin 90)
          then [''Latitude must be between -90 and 90''] else []
      | _ \<Rightarrow> [''Latitude must be a valid number''])"

definition check_lng :: "jsval \<Rightarrow> string list" where
  "check_lng lng =
     (case lng of
        JNum n \<Rightarrow>
          if isNaN n then [''Longitude must be a valid number'']
          else if js_lt n (Fin (- 180)) \<or> js_gt n (Fin 180)
          then [''Longitude must be between -180 and 180''] else []
      | _ \<Rightarrow> [''Longitude must be a valid number''])"

definition check_timezone :: "jsval \<Rightarrow> string list" where
  "check_timezone timezone =
     (case timezone of
        JNum n \<Rightarrow>
          if isNaN n then [''Timezone must be a valid number'']
          else if js_lt n (Fin (- 12)) \<or> js_gt n (Fin 14)
          then [''Timezone must be between -12 and 14''] else []
      | _ \<Rightarrow> [''Timezone must be a valid number''])"

definition validateAstrologyInput ::
  "(string \<Rightarrow> int option) \<Rightarrow> jsval \<Rightarrow> jsval \<Rightarrow> jsval \<Rightarrow> jsval \<Rightarrow> jsval \<Rightarrow> string list" where
  "validateAstrologyInput pd dateString timeString lat lng timezone =
     check_date pd dateString @ check_time timeString @ check_lat lat @ check_lng lng @
     check_timezone timezone"



section \<open>The service function\<close>

text \<open>
  A thrown value is an \<open>Error\<close> with its message or something else. What the process
  finds outside the program is the environment: the date parser above and the
  \<open>vedic-astrology\<close> package, \<open>None\<close> when the package or its
  \<open>positioner.getBirthChart\<close> is missing, else the routine, which returns a chart or
  throws.
\<close>

datatype js_exn = JsError string | NonError jsval

type_synonym call = "jsval \<times> jsval \<times> jsval \<times> jsval \<times> jsval"

record environment =
  parseDate :: "string \<Rightarrow> int option"
  getBirthChart :: "(call \<Rightarrow> js_exn + jsval) option"

text \<open>\<open>s.includes(sub)\<close> and \<open>xs.join(', ')\<close>.\<close>

fun str_includes :: "string \<Rightarrow> string \<Rightarrow> bool" where
  "str_includes [] sub = (sub = [])"
| "str_includes (c # cs) sub = (prefix sub (c # cs) \<or> str_includes cs sub)"

fun js_join :: "string list \<Rightarrow> string" where
  "js_join [] = []"
| "js_join [x] = x"
| "js_join (x # y # zs) = x @ '', '' @ js_join (y # zs)"

text \<open>
  A property read inside the service: the TypeError of a read on \<open>null\<close> or
  \<open>undefined\<close> is an \<open>Error\<close> with the engine's message.
\<close>

definition read_prop :: "jsval \<Rightarrow> string \<Rightarrow> js_exn + jsval" where
  "read_prop v k =
     (case get_prop v k of
        Inl TypeError \<Rightarrow>
          Inl (JsError (''Cannot read properties of '' @
                        (if v = JNull then ''null'' else ''undefined'') @
                        '' (reading '' @ [CHR 0x27] @ k @ [CHR 0x27] @ '')''))
      | Inr w \<Rightarrow> Inr w)"

text \<open>
  A template literal converts each interpolated value to a string, in order; the
  TypeError of a failed conversion carries the engine's message. Only whether the
  literal throws is modelled, since its text goes to the log.
\<close>

definition conversion_error :: js_exn where
  "conversion_error = JsError ''Cannot convert object to primitive value''"

fun template_literal :: "jsval list \<Rightarrow> js_exn + unit" where
  "template_literal [] = Inr ()"
| "template_literal (v # vs) =
     (if ToString_throws v then Inl conversion_error else template_literal vs)"

text \<open>\<open>meta.X?.rashi || 'Unknown'\<close>, for a \<open>meta\<close> that is an object.\<close>

definition rashi_or_unknown :: "jsval \<Rightarrow> string \<Rightarrow> js_exn + jsval" where
  "rashi_or_unknown meta code =
     (case read_prop meta code of
        Inl ex \<Rightarrow> Inl ex
      | Inr entry \<Rightarrow>
          (case (if nullish entry then Inr JUndefined else read_prop entry ''rashi'') of
             Inl ex \<Rightarrow> Inl ex
           | Inr r \<Rightarrow> Inr (if truthy r then r else JStr ''Unknown'')))"

text \<open>
  The \<open>try\<close> block of \<open>getVedicAstrologyData\<close>, after the default of the timezone
  parameter. The first component lists the invocations of the external
  \<open>getBirthChart\<close> made on the way; the second is the summary or the exception thrown.
  The log of the results interpolates the three signs and the Atmakarak.
\<close>

definition getVedicAstrologyData_try ::
  "environment \<Rightarrow> jsval \<Rightarrow> jsval \<Rightarrow> jsval \<Rightarrow> jsval \<Rightarrow> jsval \<Rightarrow> call list \<times> (js_exn + jsval)" where
  "getVedicAstrologyData_try env dateString timeString lat lng timezone =
     (let validationErrors =
            validateAstrologyInput (parseDate env) dateString timeString lat lng timezone
      in
      if length validationErrors > 0
      then ([], Inl (JsError (''Input validation failed: '' @ js_join validationErrors)))
      else
        (case getBirthChart env of
           None \<Rightarrow>
             ([], Inl (JsError
                ''Vedic astrology package not properly loaded or missing required methods''))
         | Some routine \<Rightarrow>
             (let args = (dateString, timeString, lat, lng, timezone) in
              ([args],
               (case routine args of
                  Inl ex \<Rightarrow> Inl ex
                | Inr birthChart \<Rightarrow>
                    if \<not> truthy birthChart
                    then Inl (JsError
                      ''Vedic astrology package returned null/undefined birth chart'')
                    else
                      (case read_prop birthChart ''meta'' of
                         Inl ex \<Rightarrow> Inl ex
                       | Inr meta \<Rightarrow>
                           if \<not> truthy meta \<or> typeof meta \<noteq> ''object''
                           then Inl (JsError ''Birth chart missing required meta data'')
                           else
                             (case rashi_or_unknown meta ''Mo'' of
                                Inl ex \<Rightarrow> Inl ex
                              | Inr moonSign \<Rightarrow>
                             (case rashi_or_unknown meta ''Su'' of
                                Inl ex \<Rightarrow> Inl ex
                              | Inr sunSign \<Rightarrow>
                             (case rashi_or_unknown meta ''As'' of
                                Inl ex \<Rightarrow> Inl ex
                              | Inr ascendant \<Rightarrow>
                                  (let atmakarak = JStr (calculateAtmakarak birthChart) in
                                   case template_literal
                                          [moonSign, sunSign, ascendant, atmakarak] of
                                     Inl ex \<Rightarrow> Inl ex
                                   | Inr u \<Rightarrow>
                                       Inr (JObj
                                         [(''moonSign'', moonSign),
                                          (''sunSign'', sunSign),
                                          (''ascendant'', ascendant),
                                          (''atmakarak'', atmakarak),
                                          (''birthChart'', birthChart)])))))))))))"

text \<open>The \<open>catch\<close> block: the exception thrown in place of the one caught.\<close>

fun rethrow :: "js_exn \<Rightarrow> js_exn" where
  "rethrow (JsError message) =
     (if str_includes message ''Input validation failed''
      then JsError (''Invalid input parameters: '' @ message)
      else if str_includes message ''vedic-astrology'' \<or> str_includes message ''package''
      then JsError ''Astrology calculation service is currently unavailable''
      else if str_includes message ''birth chart'' \<or> str_includes message ''meta''
      then JsError ''Failed to generate valid birth chart data''
      else JsError (''Astrology calculation failed: '' @ message))"
| "rethrow (NonError v) = JsError ''Unknown error occurred during astrology calculation''"

definition default_timezone :: "jsval \<Rightarrow> jsval" where
  "default_timezone timezone = (if timezone = JUndefined then JNum (Fin (11 / 2)) else timezone)"

text \<open>
  The whole function. Its first statement, before the \<open>try\<close>, logs a template literal
  that interpolates the date, the time and the two coordinates: an exception there
  leaves the function as it is, and nothing has been validated or invoked yet.
\<close>

definition getVedicAstrologyData ::
  "environment \<Rightarrow> jsval \<Rightarrow> jsval \<Rightarrow> jsval \<Rightarrow> jsval \<Rightarrow> jsval \<Rightarrow> call list \<times> (js_exn + jsval)" where
  "getVedicAstrologyData env dateString timeString lat lng timezone =
     (case template_literal [dateString, timeString, lat, lng] of
        Inl ex \<Rightarrow> ([], Inl ex)
      | Inr u \<Rightarrow>
          (case getVedicAstrologyData_try env dateString timeString lat lng
                  (default_timezone timezone) of
             (calls, Inl ex) \<Rightarrow> (calls, Inl (rethrow ex))
           | (calls, Inr summary) \<Rightarrow> (calls, Inr summary)))"

section \<open>The endpoint\<close>

text \<open>
  The handler of \<open>POST /astrology-data\<close> that classifies failures, with its own
  \<open>validateInput\<close>. A response is the summary sent with status 200, or a status with
  the \<open>error\<close> label of the body.
\<close>

datatype response = Success jsval | Failure nat string

fun status :: "response \<Rightarrow> nat" where
  "status (Success v) = 200"
| "status (Failure code label) = code"

definition check_dateOfBirth :: "(string \<Rightarrow> int option) \<Rightarrow> jsval \<Rightarrow> string list" where
  "check_dateOfBirth pd dateOfBirth =
     (case dateOfBirth of
        JStr s \<Rightarrow>
          if \<not> truthy dateOfBirth then [''dateOfBirth is required and must be a string'']
          else if \<not> dateRegex_test s then [''dateOfBirth must be in YYYY-MM-DD format'']
          else if pd s = None then [''dateOfBirth must be a valid date'']
          else []
      | _ \<Rightarrow> [''dateOfBirth is required and must be a string''])"

definition check_timeOfBirth :: "jsval \<Rightarrow> string list" where
  "check_timeOfBirth timeOfBirth =
     (case timeOfBirth of
        JStr s \<Rightarrow>
          if \<not> truthy timeOfBirth then [''timeOfBirth is required and must be a string'']
          else if \<not> timeRegex_test s then [''timeOfBirth must be in HH:MM:SS format'']
          else []
      | _ \<Rightarrow> [''timeOfBirth is required and must be a string''])"

definition check_lat_body :: "jsval \<Rightarrow> string list" where
  "check_lat_body lat =
     (case lat of
        JNum n \<Rightarrow>
          if js_lt n (Fin (- 90)) \<or> js_gt n (Fin 90)
          then [''lat must be between -90 and 90''] else []
      | _ \<Rightarrow> [''lat is required and must be a number''])"

definition check_lng_body :: "jsval \<Rightarrow> string list" where
  "check_lng_body lng =
     (case lng of
        JNum n \<Rightarrow>
          if js_lt n (Fin (- 180)) \<or> js_gt n (Fin 180)
          then [''lng must be between -180 and 180''] else []
      | _ \<Rightarrow> [''lng is required and must be a number''])"

definition validateInput ::
  "(string \<Rightarrow> int option) \<Rightarrow> jsval \<Rightarrow> jsval \<Rightarrow> jsval \<Rightarrow> jsval \<Rightarrow> string list" where
  "validateInput pd dateOfBirth timeOfBirth lat lng =
     check_dateOfBirth pd dateOfBirth @ check_timeOfBirth timeOfBirth @
     check_lat_body lat @ check_lng_body lng"

text \<open>The handler's \<open>catch\<close> block.\<close>

fun error_response :: "js_exn \<Rightarrow> response" where
  "error_response (JsError message) =
     (if str_includes message ''Invalid date'' \<or> str_includes message ''Invalid time''
      then Failure 400 ''Invalid date or time format''
      else if str_includes message ''coordinates'' \<or> str_includes message ''latitude'' \<or>
              str_includes message ''longitude''
      then Failure 400 ''Invalid coordinates''
      else if str_includes message ''Input validation failed''
      then Failure 400 ''Invalid input parameters''
      else if str_includes message ''vedic-astrology'' \<or> str_includes message ''package''
      then Failure 503 ''Astrology service unavailable''
      else Failure 500 ''Internal server error'')"
| "error_response (NonError v) = Failure 500 ''Unknown server error''"

definition post_astrology_data :: "environment \<Rightarrow> jsval \<Rightarrow> response" where
  "post_astrology_data env body =
     (case read_prop body ''dateOfBirth'' of
        Inl ex \<Rightarrow> error_response ex
      | Inr dateOfBirth \<Rightarrow>
     (case read_prop body ''timeOfBirth'' of
        Inl ex \<Rightarrow> error_response ex
      | Inr timeOfBirth \<Rightarrow>
     (case read_prop body ''lat'' of
        Inl ex \<Rightarrow> error_response ex
      | Inr lat \<Rightarrow>
     (case read_prop body ''lng'' of
        Inl ex \<Rightarrow> error_response ex
      | Inr lng \<Rightarrow>
          if length (validateInput (parseDate env) dateOfBirth timeOfBirth lat lng) > 0
          then Failure 400 ''Invalid input''
          else
            (case snd (getVedicAstrologyData env dateOfBirth timeOfBirth lat lng JUndefined) of
               Inl ex \<Rightarrow> error_response ex
             | Inr result \<Rightarrow> Success result)))))"

section \<open>Example charts\<close>

text \<open>
  A chart as the collaborator returns it, with the given degrees for the listed planet
  codes and no other entry; and the seven full names in the order of the scan.
\<close>

definition chart_of :: "(string \<times> real) list \<Rightarrow> jsval" where
  "chart_of ds =
     JObj [(''meta'', JObj (map (\<lambda>(p, d). (p, JObj [(''degree'', JNum (Fin d))])) ds))]"

definition planet_full_names :: "string list" where
  "planet_full_names = [''Sun'', ''Moon'', ''Mars'', ''Mercury'', ''Jupiter'', ''Venus'', ''Saturn'']"

section \<open>Vocabulary for the validation claims\<close>

text \<open>
  What the specification's table asks of each field, written without the code. A date is
  valid when it is a string of the form \<open>YYYY-MM-DD\<close> that names a day of the calendar
  in a year from 1900 to 2100; a time when it is a string of the form \<open>HH:MM:SS\<close> with
  hours up to 23 and minutes and seconds up to 59; latitude, longitude and timezone when
  they are finite numbers in [-90, 90], [-180, 180] and [-12, 14].
\<close>

fun spec_date_parts :: "string \<Rightarrow> (int \<times> int \<times> int) option" where
  "spec_date_parts [y1, y2, y3, y4, s1, m1, m2, s2, d1, d2] =
     (if is_digit y1 \<and> is_digit y2 \<and> is_digit y3 \<and> is_digit y4 \<and> s1 = CHR ''-'' \<and>
         is_digit m1 \<and> is_digit m2 \<and> s2 = CHR ''-'' \<and> is_digit d1 \<and> is_digit d2
      then Some (1000 * digit_val y1 + 100 * digit_val y2 + 10 * digit_val y3 + digit_val y4,
                 10 * digit_val m1 + digit_val m2,
                 10 * digit_val d1 + digit_val d2)
      else None)"
| "spec_date_parts s = None"

fun spec_time_parts :: "string \<Rightarrow> (int \<times> int \<times> int) option" where
  "spec_time_parts [h1, h2, s1, m1, m2, s2, c1, c2] =
     (if is_digit h1 \<and> is_digit h2 \<and> s1 = CHR '':'' \<and> is_digit m1 \<and> is_digit m2 \<and>
         s2 = CHR '':'' \<and> is_digit c1 \<and> is_digit c2
      then Some (10 * digit_val h1 + digit_val h2,
                 10 * digit_val m1 + digit_val m2,
                 10 * digit_val c1 + digit_val c2)
      else None)"
| "spec_time_parts s = None"

definition spec_leap_year :: "int \<Rightarrow> bool" where
  "spec_leap_year y = (y mod 4 = 0 \<and> (y mod 100 \<noteq> 0 \<or> y mod 400 = 0))"

definition spec_days_in_month :: "int \<Rightarrow> int \<Rightarrow> int" where
  "spec_days_in_month y m =
     (if m = 2 then (if spec_leap_year y then 29 else 28)
      else if m = 4 \<or> m = 6 \<or> m = 9 \<or> m = 11 then 30
      else 31)"

definition spec_date_of :: "jsval \<Rightarrow> (int \<times> int \<times> int) option" where
  "spec_date_of d = (case d of JStr s \<Rightarrow> spec_date_parts s | _ \<Rightarrow> None)"

definition spec_time_of :: "jsval \<Rightarrow> (int \<times> int \<times> int) option" where
  "spec_time_of t = (case t of JStr s \<Rightarrow> spec_time_parts s | _ \<Rightarrow> None)"

definition spec_date_valid :: "jsval \<Rightarrow> bool" where
  "spec_date_valid d =
     (case spec_date_of d of
        Some (y, m, dd) \<Rightarrow>
          1 \<le> m \<and> m \<le> 12 \<and> 1 \<le> dd \<and> dd \<le> spec_days_in_month y m \<and>
          1900 \<le> y \<and> y \<le> 2100
      | None \<Rightarrow> False)"

definition spec_time_valid :: "jsval \<Rightarrow> bool" where
  "spec_time_valid t =
     (case spec_time_of t of
        Some (h, m, sec) \<Rightarrow> h \<le> 23 \<and> m \<le> 59 \<and> sec \<le> 59
      | None \<Rightarrow> False)"

definition spec_in_range :: "real \<Rightarrow> real \<Rightarrow> jsval \<Rightarrow> bool" where
  "spec_in_range lo hi v = (case v of JNum (Fin x) \<Rightarrow> lo \<le> x \<and> x \<le> hi | _ \<Rightarrow> False)"


text \<open>
  The one way a date can be invalid that the amended claim leaves out: everything is in
  order except that the day, at most 31, is past the end of its month.
\<close>

definition spec_day_past_month :: "jsval \<Rightarrow> bool" where
  "spec_day_past_month d =
     (case spec_date_of d of
        Some (y, m, dd) \<Rightarrow>
          1 \<le> m \<and> m \<le> 12 \<and> spec_days_in_month y m < dd \<and> dd \<le> 31 \<and>
          1900 \<le> y \<and> y \<le> 2100
      | None \<Rightarrow> False)"


section \<open>Example environments\<close>

text \<open>
  A process whose package returns a small chart, a process whose package is not loaded,
  and a request body with valid fields.
\<close>

definition example_env :: environment where
  "example_env =
     \<lparr>parseDate = v8_date_year,
      getBirthChart = Some (\<lambda>args. Inr (chart_of [(''Su'', 80), (''Mo'', 120)]))\<rparr>"

definition no_package_env :: environment where
  "no_package_env = \<lparr>parseDate = v8_date_year, getBirthChart = None\<rparr>"

definition example_body :: jsval where
  "example_body =
     JObj [(''dateOfBirth'', JStr ''1990-06-15''), (''timeOfBirth'', JStr ''14:30:00''),
           (''lat'', JNum (Fin (286 / 10))), (''lng'', JNum (Fin (772 / 10)))]"

section \<open>The per-planet filter\<close>

lemma truthy_get_prop: "truthy v \<Longrightarrow> \<exists>w. get_prop v k = Inr w"
  by (cases v) auto

lemma scan_planet_meta_degree:
  "scan_planet (JObj ms) st p =
     Inr (case spec_meta_degree (JObj ms) p of
            None \<Rightarrow> st
          | Some d \<Rightarrow>
              if js_gt (Fin d) (maxDegrees st)
              then st\<lparr>validPlanets := validPlanets st @ [p], maxDegrees := Fin d, atmakarak := p\<rparr>
              else st\<lparr>validPlanets := validPlanets st @ [p]\<rparr>)"
proof (cases "map_of ms p")
  case None
  then show ?thesis by (simp add: scan_planet_def)
next
  case (Some e)
  show ?thesis
  proof (cases e)
    case (JObj es)
    show ?thesis
    proof (cases "map_of es ''degree''")
      case None
      with Some JObj show ?thesis by (simp add: scan_planet_def)
    next
      case (Some dv)
      note dv = this
      show ?thesis
      proof (cases dv)
        case (JNum n)
        with dv JObj \<open>map_of ms p = Some e\<close> show ?thesis
          by (cases n)
             (simp_all add: scan_planet_def parseFloat_String_def isNaN_def js_ge_def
                js_le_def js_gt_def Let_def)
      qed (use dv JObj \<open>map_of ms p = Some e\<close> in \<open>simp_all add: scan_planet_def\<close>)
    qed
  qed (use Some in \<open>auto simp add: scan_planet_def\<close>)
qed

text \<open>
  Claim C5. In the per-planet filter, a finite degree in the closed range from 0 to 360,
  the two bounds 0 and 360 included, counts as valid data: the planet is recorded as
  valid and its degree is compared with the running maximum. A degree strictly below 0
  or strictly above 360 skips the planet: the locals are left exactly as they were, so
  the planet is not recorded and is not compared as a zero.
\<close>

theorem degree_filter_boundaries:
  assumes "map_of ms p = Some (JObj es)"
    and "map_of es ''degree'' = Some (JNum (Fin d))"
  shows "(0 \<le> d \<and> d \<le> 360 \<longrightarrow>
            scan_planet (JObj ms) st p =
              Inr (if js_gt (Fin d) (maxDegrees st)
                   then st\<lparr>validPlanets := validPlanets st @ [p], maxDegrees := Fin d, atmakarak := p\<rparr>
                   else st\<lparr>validPlanets := validPlanets st @ [p]\<rparr>))
       \<and> (d < 0 \<or> 360 < d \<longrightarrow> scan_planet (JObj ms) st p = Inr st)"
  using assms
  by (simp add: scan_planet_def parseFloat_String_def isNaN_def js_ge_def js_le_def Let_def)

section \<open>The scan as a whole\<close>

lemma scan_planets_append:
  "scan_planets m st (xs @ ys) =
     (case scan_planets m st xs of Inl e \<Rightarrow> Inl e | Inr st' \<Rightarrow> scan_planets m st' ys)"
  by (induction xs arbitrary: st) (auto split: sum.splits)

lemma scan_planets_valid:
  "\<exists>st'. scan_planets (JObj ms) st ps = Inr st' \<and>
         validPlanets st' = validPlanets st @ filter (\<lambda>p. spec_meta_degree (JObj ms) p \<noteq> None) ps"
proof (induction ps arbitrary: st)
  case Nil
  show ?case by simp
next
  case (Cons p ps)
  obtain st1 where st1: "scan_planet (JObj ms) st p = Inr st1"
    by (simp add: scan_planet_meta_degree)
  have v: "validPlanets st1 = validPlanets st @ (if spec_meta_degree (JObj ms) p \<noteq> None then [p] else [])"
    using st1 unfolding scan_planet_meta_degree by (auto split: option.splits if_splits)
  from Cons.IH [of st1] obtain st' where
    "scan_planets (JObj ms) st1 ps = Inr st'"
    "validPlanets st' = validPlanets st1 @ filter (\<lambda>p. spec_meta_degree (JObj ms) p \<noteq> None) ps"
    by blast
  with st1 v show ?case by simp
qed

lemma scan_planets_keep:
  assumes "maxDegrees st = Fin m"
    and "\<forall>p\<in>set ps. at_most m (spec_meta_degree (JObj ms) p)"
  shows "\<exists>st'. scan_planets (JObj ms) st ps = Inr st' \<and> maxDegrees st' = Fin m \<and>
               atmakarak st' = atmakarak st"
  using assms
proof (induction ps arbitrary: st)
  case Nil
  then show ?case by simp
next
  case (Cons p ps)
  obtain st1 where st1: "scan_planet (JObj ms) st p = Inr st1"
    by (simp add: scan_planet_meta_degree)
  have "at_most m (spec_meta_degree (JObj ms) p)" using Cons.prems by simp
  then have k: "maxDegrees st1 = Fin m \<and> atmakarak st1 = atmakarak st"
    using st1 Cons.prems(1) unfolding scan_planet_meta_degree
    by (auto simp add: at_most_def js_gt_def split: option.splits if_splits)
  then obtain st' where "scan_planets (JObj ms) st1 ps = Inr st'" "maxDegrees st' = Fin m"
    "atmakarak st' = atmakarak st1"
    using Cons.IH [of st1] Cons.prems(2) by auto
  with st1 k show ?case by simp
qed

lemma scan_planets_below:
  assumes "maxDegrees st = Fin m" and "m < b"
    and "\<forall>p\<in>set ps. below b (spec_meta_degree (JObj ms) p)"
  shows "\<exists>st' m'. scan_planets (JObj ms) st ps = Inr st' \<and> maxDegrees st' = Fin m' \<and> m' < b"
  using assms
proof (induction ps arbitrary: st m)
  case Nil
  then show ?case by simp
next
  case (Cons p ps)
  obtain st1 where st1: "scan_planet (JObj ms) st p = Inr st1"
    by (simp add: scan_planet_meta_degree)
  have "below b (spec_meta_degree (JObj ms) p)" using Cons.prems by simp
  then obtain m1 where k: "maxDegrees st1 = Fin m1" "m1 < b"
    using st1 Cons.prems(1,2) unfolding scan_planet_meta_degree
    by (auto simp add: below_def js_gt_def split: option.splits if_splits)
  then obtain st' m' where "scan_planets (JObj ms) st1 ps = Inr st'" "maxDegrees st' = Fin m'" "m' < b"
    using Cons.IH [of st1 m1] Cons.prems(3) by auto
  with st1 show ?case by simp
qed

lemma scan_planets_winner:
  assumes "maxDegrees st = Fin m" and "m < dw"
    and "\<forall>p\<in>set pre. below dw (spec_meta_degree (JObj ms) p)"
    and "spec_meta_degree (JObj ms) w = Some dw"
    and "\<forall>p\<in>set post. at_most dw (spec_meta_degree (JObj ms) p)"
  shows "\<exists>st'. scan_planets (JObj ms) st (pre @ w # post) = Inr st' \<and>
               maxDegrees st' = Fin dw \<and> atmakarak st' = w"
proof -
  obtain st1 m1 where s1: "scan_planets (JObj ms) st pre = Inr st1" "maxDegrees st1 = Fin m1" "m1 < dw"
    using scan_planets_below [OF assms(1,2,3)] by blast
  define st2 where "st2 = st1\<lparr>validPlanets := validPlanets st1 @ [w], maxDegrees := Fin dw, atmakarak := w\<rparr>"
  have s2: "scan_planet (JObj ms) st1 w = Inr st2"
    unfolding scan_planet_meta_degree using assms(4) s1 by (simp add: js_gt_def st2_def)
  have "maxDegrees st2 = Fin dw" by (simp add: st2_def)
  from scan_planets_keep [OF this assms(5)] obtain st' where
    s3: "scan_planets (JObj ms) st2 post = Inr st'" "maxDegrees st' = Fin dw" "atmakarak st' = atmakarak st2"
    by blast
  have "atmakarak st2 = w" by (simp add: st2_def)
  with s1 s2 s3 show ?thesis by (simp add: scan_planets_append)
qed

lemma valid_degree_shape:
  assumes "spec_valid_degree c p = Some d"
  shows "\<exists>cs ms. c = JObj cs \<and> map_of cs ''meta'' = Some (JObj ms)"
proof -
  obtain cs where c: "c = JObj cs" using assms by (cases c) auto
  then obtain m where m: "map_of cs ''meta'' = Some m" "spec_meta_degree m p = Some d"
    using assms by (auto split: option.splits)
  then obtain ms where "m = JObj ms" by (cases m) auto
  with c m show ?thesis by simp
qed

lemma valid_degree_meta:
  "c = JObj cs \<Longrightarrow> map_of cs ''meta'' = Some (JObj ms) \<Longrightarrow>
   spec_valid_degree c p = spec_meta_degree (JObj ms) p"
  by simp

lemma entry_degree_range: "spec_entry_degree e = Some d \<Longrightarrow> 0 \<le> d \<and> d \<le> 360"
  by (cases e) (auto split: option.splits jsval.splits jsnum.splits if_splits)

lemma meta_degree_range: "spec_meta_degree m p = Some d \<Longrightarrow> 0 \<le> d \<and> d \<le> 360"
  by (cases m) (auto split: option.splits dest: entry_degree_range)

lemma valid_degree_range: "spec_valid_degree c p = Some d \<Longrightarrow> 0 \<le> d \<and> d \<le> 360"
  by (cases c) (auto split: option.splits dest: meta_degree_range)

lemma calculateAtmakarak_try_obj:
  assumes "c = JObj cs" and "map_of cs ''meta'' = Some (JObj ms)"
    and "scan_planets (JObj ms) init_state planets = Inr st"
  shows "calculateAtmakarak_try c =
           Inr (if validPlanets st = [] then ''Sun'' else name_of (atmakarak st))"
  using assms by (simp add: calculateAtmakarak_try_def name_of_def split: option.splits)

lemma calculateAtmakarak_try_no_meta:
  assumes "\<And>cs ms. c = JObj cs \<Longrightarrow> map_of cs ''meta'' \<noteq> Some (JObj ms)"
  shows "calculateAtmakarak_try c = Inr ''Sun''"
proof (cases c)
  case (JObj cs)
  show ?thesis
  proof (cases "map_of cs ''meta''")
    case None
    with JObj show ?thesis by (simp add: calculateAtmakarak_try_def)
  next
    case (Some m)
    with assms JObj show ?thesis
      by (cases m) (simp_all add: calculateAtmakarak_try_def)
  qed
qed (simp_all add: calculateAtmakarak_try_def)

lemma planetNames_planets: "p \<in> set planets \<Longrightarrow> planetNames p = Some (name_of p)"
  by (auto simp add: planets_def planetNames_def name_of_def)

lemma planets_distinct: "distinct planets"
  by (simp add: planets_def)

section \<open>Which planet wins\<close>

lemma winner_result:
  assumes c: "c = JObj cs" "map_of cs ''meta'' = Some (JObj ms)"
    and pl: "planets = pre @ w # post"
    and dw: "spec_meta_degree (JObj ms) w = Some dw" "0 < dw"
    and pre: "\<forall>p\<in>set pre. below dw (spec_meta_degree (JObj ms) p)"
    and post: "\<forall>p\<in>set post. at_most dw (spec_meta_degree (JObj ms) p)"
  shows "calculateAtmakarak_try c = Inr (name_of w)"
proof -
  have "maxDegrees init_state = Fin 0" by (simp add: init_state_def)
  from scan_planets_winner [OF this dw(2) pre dw(1) post] obtain st where
    st: "scan_planets (JObj ms) init_state planets = Inr st" "atmakarak st = w"
    unfolding pl by blast
  obtain st' where "scan_planets (JObj ms) init_state planets = Inr st'"
    "validPlanets st' = validPlanets init_state @ filter (\<lambda>p. spec_meta_degree (JObj ms) p \<noteq> None) planets"
    using scan_planets_valid by blast
  moreover have "w \<in> set planets" unfolding pl by simp
  ultimately have "w \<in> set (validPlanets st)" using st dw(1) by (simp del: spec_meta_degree.simps)
  then have "validPlanets st \<noteq> []" by auto
  with calculateAtmakarak_try_obj [OF c st(1)] st(2) show ?thesis by simp
qed

lemma default_result:
  assumes c: "c = JObj cs" "map_of cs ''meta'' = Some (JObj ms)"
    and "\<forall>p\<in>set planets. at_most 0 (spec_meta_degree (JObj ms) p)"
  shows "calculateAtmakarak_try c = Inr ''Sun''"
proof -
  have "maxDegrees init_state = Fin 0" by (simp add: init_state_def)
  from scan_planets_keep [OF this assms(3)] obtain st where
    st: "scan_planets (JObj ms) init_state planets = Inr st" "atmakarak st = atmakarak init_state"
    by blast
  have "name_of (atmakarak init_state) = ''Sun''"
    by (simp add: init_state_def name_of_def planetNames_def)
  with calculateAtmakarak_try_obj [OF c st(1)] st(2) show ?thesis by simp
qed

text \<open>
  Claim C1. When each of the seven planets has a degree that is present, numeric and
  within [0, 360], and the seven degrees are pairwise distinct, \<open>calculateAtmakarak\<close>
  returns the full name of the planet whose degree is the largest.
\<close>

theorem atmakarak_is_largest_degree:
  assumes all: "\<forall>p\<in>set planets. spec_valid_degree c p \<noteq> None"
    and dist: "distinct (map (spec_valid_degree c) planets)"
    and w: "w \<in> set planets"
    and mx: "\<forall>p\<in>set planets. the (spec_valid_degree c p) \<le> the (spec_valid_degree c w)"
  shows "planetNames w = Some (calculateAtmakarak c)"
proof -
  obtain dw where dw: "spec_valid_degree c w = Some dw" using all w by auto
  then obtain cs ms where c: "c = JObj cs" "map_of cs ''meta'' = Some (JObj ms)"
    using valid_degree_shape by blast
  have vm: "\<And>p. spec_valid_degree c p = spec_meta_degree (JObj ms) p"
    using c by simp
  have inj: "inj_on (spec_valid_degree c) (set planets)"
    using dist planets_distinct by (simp add: distinct_map)
  have less: "the (spec_valid_degree c p) < dw" if "p \<in> set planets" "p \<noteq> w" for p
  proof -
    have "spec_valid_degree c p \<noteq> spec_valid_degree c w" using inj that w by (auto dest: inj_onD)
    moreover have "spec_valid_degree c p \<noteq> None" using all that by simp
    moreover have "the (spec_valid_degree c p) \<le> dw" using mx that dw by auto
    ultimately show ?thesis using dw by (cases "spec_valid_degree c p") auto
  qed
  obtain q where q: "q \<in> set planets" "q \<noteq> w"
    using w by (auto simp add: planets_def)
  obtain dq where dq: "spec_valid_degree c q = Some dq" using all q by auto
  have "0 \<le> dq" using valid_degree_range [OF dq] by simp
  moreover have "dq < dw" using less [OF q] dq by simp
  ultimately have pos: "0 < dw" by simp
  obtain pre post where pl: "planets = pre @ w # post"
    using w by (auto dest: split_list)
  have nw: "w \<notin> set pre" "w \<notin> set post"
    using planets_distinct unfolding pl by auto
  have sub: "set pre \<subseteq> set planets" "set post \<subseteq> set planets"
    unfolding pl by auto
  have pre: "\<forall>p\<in>set pre. below dw (spec_meta_degree (JObj ms) p)"
  proof
    fix p assume "p \<in> set pre"
    then have "p \<in> set planets" "p \<noteq> w" using sub nw by auto
    from less [OF this] show "below dw (spec_meta_degree (JObj ms) p)"
      by (auto simp add: below_def vm simp del: spec_meta_degree.simps split: option.splits)
  qed
  have post: "\<forall>p\<in>set post. at_most dw (spec_meta_degree (JObj ms) p)"
  proof
    fix p assume "p \<in> set post"
    then have "p \<in> set planets" "p \<noteq> w" using sub nw by auto
    from less [OF this] show "at_most dw (spec_meta_degree (JObj ms) p)"
      by (auto simp add: at_most_def vm simp del: spec_meta_degree.simps split: option.splits)
  qed
  have "calculateAtmakarak_try c = Inr (name_of w)"
    using winner_result [OF c pl _ pos pre post] dw vm by simp
  then show ?thesis
    using planetNames_planets [OF w] by (simp add: calculateAtmakarak_def)
qed

text \<open>
  Claim C2, amended. When the largest valid degree is strictly positive, or is held by the
  Sun, \<open>calculateAtmakarak\<close> returns the name of the earliest planet, in the order Sun,
  Moon, Mars, Mercury, Jupiter, Venus, Saturn, that holds it.
\<close>

theorem tie_goes_to_earliest:
  assumes i: "i < length planets"
    and m: "spec_valid_degree c (planets ! i) = Some m"
    and mx: "\<forall>p\<in>set planets. \<forall>d. spec_valid_degree c p = Some d \<longrightarrow> d \<le> m"
    and first: "\<forall>j<i. spec_valid_degree c (planets ! j) \<noteq> Some m"
    and pos: "0 < m \<or> spec_valid_degree c ''Su'' = Some m"
  shows "planetNames (planets ! i) = Some (calculateAtmakarak c)"
proof -
  obtain cs ms where c: "c = JObj cs" "map_of cs ''meta'' = Some (JObj ms)"
    using valid_degree_shape [OF m] by blast
  have vm: "\<And>p. spec_valid_degree c p = spec_meta_degree (JObj ms) p"
    using c by simp
  have w: "planets ! i \<in> set planets" using i by simp
  show ?thesis
  proof (cases "0 < m")
    case True
    have pl: "planets = take i planets @ planets ! i # drop (Suc i) planets"
      using i by (simp add: id_take_nth_drop)
    have pre: "\<forall>p\<in>set (take i planets). below m (spec_meta_degree (JObj ms) p)"
    proof
      fix p assume p: "p \<in> set (take i planets)"
      then obtain j where j: "j < i" "p = planets ! j"
        using i by (auto simp add: in_set_conv_nth)
      have "p \<in> set planets" using p by (rule in_set_takeD)
      with mx first j show "below m (spec_meta_degree (JObj ms) p)"
        by (cases "spec_valid_degree c p") (auto simp add: below_def vm [symmetric] less_le simp del: spec_meta_degree.simps)
    qed
    have post: "\<forall>p\<in>set (drop (Suc i) planets). at_most m (spec_meta_degree (JObj ms) p)"
    proof
      fix p assume "p \<in> set (drop (Suc i) planets)"
      then have "p \<in> set planets" by (rule in_set_dropD)
      with mx show "at_most m (spec_meta_degree (JObj ms) p)"
        by (cases "spec_valid_degree c p") (auto simp add: at_most_def vm [symmetric] simp del: spec_meta_degree.simps)
    qed
    have "calculateAtmakarak_try c = Inr (name_of (planets ! i))"
      using winner_result [OF c pl _ True pre post] m vm by simp
    then show ?thesis
      using planetNames_planets [OF w] by (simp add: calculateAtmakarak_def)
  next
    case False
    with pos have su: "spec_valid_degree c ''Su'' = Some m" by simp
    have "planets ! 0 = ''Su''" by (simp add: planets_def)
    with first su have "i = 0" by (cases i) auto
    have "m = 0" using valid_degree_range [OF m] False by simp
    have "\<forall>p\<in>set planets. at_most 0 (spec_meta_degree (JObj ms) p)"
      using mx \<open>m = 0\<close> by (auto simp add: at_most_def vm [symmetric] simp del: spec_meta_degree.simps split: option.splits)
    from default_result [OF c this] show ?thesis
      using \<open>i = 0\<close> by (simp add: calculateAtmakarak_def planets_def planetNames_def)
  qed
qed

text \<open>
  Claim C3. When none of the seven planets has a degree that is present, numeric and
  within [0, 360], the body of the \<open>try\<close> block returns \<open>Sun\<close> without raising, and so
  does the function.
\<close>

theorem no_valid_degree_gives_sun:
  assumes "\<forall>p\<in>set planets. spec_valid_degree c p = None"
  shows "calculateAtmakarak_try c = Inr ''Sun'' \<and> calculateAtmakarak c = ''Sun''"
proof -
  have "calculateAtmakarak_try c = Inr ''Sun''"
  proof (cases "\<exists>cs ms. c = JObj cs \<and> map_of cs ''meta'' = Some (JObj ms)")
    case True
    then obtain cs ms where c: "c = JObj cs" "map_of cs ''meta'' = Some (JObj ms)" by blast
    have "\<forall>p\<in>set planets. at_most 0 (spec_meta_degree (JObj ms) p)"
      using assms c by (simp add: at_most_def)
    from default_result [OF c this] show ?thesis .
  next
    case False
    then show ?thesis by (intro calculateAtmakarak_try_no_meta) blast
  qed
  then show ?thesis by (simp add: calculateAtmakarak_def)
qed

text \<open>
  Claim C10. When the only planet with a present, numeric, in-range degree is not the Sun
  and its degree is exactly 0, \<open>calculateAtmakarak\<close> returns \<open>Sun\<close>, which is not the
  name of that planet.
\<close>

theorem zero_degree_planet_loses_to_sun:
  assumes "w \<in> set planets" and "w \<noteq> ''Su''"
    and "spec_valid_degree c w = Some 0"
    and "\<forall>p\<in>set planets. p \<noteq> w \<longrightarrow> spec_valid_degree c p = None"
  shows "calculateAtmakarak c = ''Sun'' \<and> planetNames w \<noteq> Some (calculateAtmakarak c)"
proof -
  obtain cs ms where c: "c = JObj cs" "map_of cs ''meta'' = Some (JObj ms)"
    using valid_degree_shape [OF assms(3)] by blast
  have "\<forall>p\<in>set planets. at_most 0 (spec_meta_degree (JObj ms) p)"
  proof
    fix p assume "p \<in> set planets"
    with assms(3,4) c show "at_most 0 (spec_meta_degree (JObj ms) p)"
      by (cases "p = w") (auto simp add: at_most_def)
  qed
  from default_result [OF c this] have r: "calculateAtmakarak c = ''Sun''"
    by (simp add: calculateAtmakarak_def)
  moreover have "planetNames w \<noteq> Some ''Sun''"
    using assms(1,2) by (auto simp add: planets_def planetNames_def)
  ultimately show ?thesis by simp
qed

section \<open>Totality, and the two versions\<close>

lemma scan_planets_atmakarak:
  "\<exists>st'. scan_planets (JObj ms) st ps = Inr st' \<and> atmakarak st' \<in> insert (atmakarak st) (set ps)"
proof (induction ps arbitrary: st)
  case Nil
  show ?case by simp
next
  case (Cons p ps)
  obtain st1 where st1: "scan_planet (JObj ms) st p = Inr st1"
    by (simp add: scan_planet_meta_degree)
  have a: "atmakarak st1 \<in> {atmakarak st, p}"
    using st1 unfolding scan_planet_meta_degree by (auto split: option.splits if_splits)
  from Cons.IH [of st1] obtain st' where
    "scan_planets (JObj ms) st1 ps = Inr st'" "atmakarak st' \<in> insert (atmakarak st1) (set ps)"
    by blast
  with st1 a show ?case by auto
qed

lemma name_of_full: "p \<in> set planets \<Longrightarrow> name_of p \<in> set planet_full_names"
  by (auto simp add: planets_def name_of_def planetNames_def planet_full_names_def)

text \<open>
  Claim C4. On every chart value the body of the \<open>try\<close> block returns without raising,
  and the result of \<open>calculateAtmakarak\<close> is one of the seven full planet names (so it
  is never empty).
\<close>

theorem calculateAtmakarak_total:
  "calculateAtmakarak_try c = Inr (calculateAtmakarak c) \<and>
   calculateAtmakarak c \<in> set planet_full_names"
proof -
  have "\<exists>name. calculateAtmakarak_try c = Inr name \<and> name \<in> set planet_full_names"
  proof (cases "\<exists>cs ms. c = JObj cs \<and> map_of cs ''meta'' = Some (JObj ms)")
    case True
    then obtain cs ms where c: "c = JObj cs" "map_of cs ''meta'' = Some (JObj ms)" by blast
    obtain st where st: "scan_planets (JObj ms) init_state planets = Inr st"
      "atmakarak st \<in> insert (atmakarak init_state) (set planets)"
      using scan_planets_atmakarak by blast
    have "atmakarak init_state \<in> set planets" by (simp add: init_state_def planets_def)
    with st have "atmakarak st \<in> set planets" by auto
    then have "name_of (atmakarak st) \<in> set planet_full_names" by (rule name_of_full)
    moreover have "''Sun'' \<in> set planet_full_names" by (simp add: planet_full_names_def)
    ultimately show ?thesis
      using calculateAtmakarak_try_obj [OF c st(1)] by auto
  next
    case False
    then have "calculateAtmakarak_try c = Inr ''Sun''"
      by (intro calculateAtmakarak_try_no_meta) blast
    then show ?thesis by (simp add: planet_full_names_def)
  qed
  then show ?thesis by (auto simp add: calculateAtmakarak_def)
qed

lemma coerce_planet_meta_degree:
  assumes "spec_meta_degree (JObj ms) p = Some d"
  shows "coerce_planet pf (JObj ms) st p =
           Inr (if js_gt (Fin d) (fst st) then (Fin d, p) else st)"
proof -
  obtain e where e: "map_of ms p = Some e" "spec_entry_degree e = Some d"
    using assms by (auto split: option.splits)
  then obtain es where es: "e = JObj es" by (cases e) auto
  with e have "map_of es ''degree'' = Some (JNum (Fin d))"
    by (auto split: option.splits jsval.splits jsnum.splits if_splits)
  with e es show ?thesis
    by (simp add: coerce_planet_def nullish_def parseFloat_String_any_def parseFloat_String_def)
qed

lemma coerce_planets_follow:
  assumes "\<forall>p\<in>set ps. spec_meta_degree (JObj ms) p \<noteq> None"
    and "scan_planets (JObj ms) st ps = Inr st'"
  shows "coerce_planets pf (JObj ms) (maxDegrees st, atmakarak st) ps =
           Inr (maxDegrees st', atmakarak st')"
  using assms
proof (induction ps arbitrary: st)
  case Nil
  then show ?case by simp
next
  case (Cons p ps)
  obtain d where d: "spec_meta_degree (JObj ms) p = Some d" using Cons.prems(1) by auto
  define st1 where "st1 =
    (if js_gt (Fin d) (maxDegrees st)
     then st\<lparr>validPlanets := validPlanets st @ [p], maxDegrees := Fin d, atmakarak := p\<rparr>
     else st\<lparr>validPlanets := validPlanets st @ [p]\<rparr>)"
  have s: "scan_planet (JObj ms) st p = Inr st1"
    unfolding scan_planet_meta_degree d st1_def by simp
  have c: "coerce_planet pf (JObj ms) (maxDegrees st, atmakarak st) p =
             Inr (maxDegrees st1, atmakarak st1)"
    unfolding coerce_planet_meta_degree [OF d] st1_def by simp
  have "scan_planets (JObj ms) st1 ps = Inr st'" using Cons.prems(2) s by simp
  from Cons.IH [OF _ this] Cons.prems(1) c show ?case by simp
qed

text \<open>
  Claim C9. On a chart whose seven planets all have a present, numeric degree within
  [0, 360] (so that the chart and its \<open>meta\<close> are objects), the coercing version returns,
  without raising, the name the validity-filtering version returns.
\<close>

theorem versions_agree_on_valid_charts:
  assumes "\<forall>p\<in>set planets. spec_valid_degree c p \<noteq> None"
  shows "calculateAtmakarak_coercing pf c = Inr (calculateAtmakarak c)"
proof -
  have "''Su'' \<in> set planets" by (simp add: planets_def)
  with assms obtain d where "spec_valid_degree c ''Su'' = Some d" by auto
  then obtain cs ms where c: "c = JObj cs" "map_of cs ''meta'' = Some (JObj ms)"
    using valid_degree_shape by blast
  have all: "\<forall>p\<in>set planets. spec_meta_degree (JObj ms) p \<noteq> None"
    using assms c by simp
  obtain st where st: "scan_planets (JObj ms) init_state planets = Inr st"
    "validPlanets st = validPlanets init_state @ filter (\<lambda>p. spec_meta_degree (JObj ms) p \<noteq> None) planets"
    using scan_planets_valid by blast
  have "filter (\<lambda>p. spec_meta_degree (JObj ms) p \<noteq> None) planets = planets"
    using all by (simp del: spec_meta_degree.simps)
  with st have "validPlanets st \<noteq> []" by (simp add: planets_def)
  with calculateAtmakarak_try_obj [OF c st(1)]
  have v1: "calculateAtmakarak c = name_of (atmakarak st)"
    by (simp add: calculateAtmakarak_def)
  have "coerce_planets pf (JObj ms) (Fin 0, ''Su'') planets = Inr (maxDegrees st, atmakarak st)"
    using coerce_planets_follow [OF all st(1), of pf] by (simp add: init_state_def)
  then show ?thesis using c v1 by (simp add: calculateAtmakarak_coercing_def)
qed

section \<open>Concrete charts\<close>

theorem degree_filter_boundaries_witness:
  "scan_planet (JObj [(''Mo'', JObj [(''degree'', JNum (Fin 360))])]) init_state ''Mo'' =
     Inr \<lparr>maxDegrees = Fin 360, atmakarak = ''Mo'', validPlanets = [''Mo'']\<rparr> \<and>
   scan_planet (JObj [(''Mo'', JObj [(''degree'', JNum (Fin 0))])]) init_state ''Mo'' =
     Inr \<lparr>maxDegrees = Fin 0, atmakarak = ''Su'', validPlanets = [''Mo'']\<rparr> \<and>
   scan_planet (JObj [(''Mo'', JObj [(''degree'', JNum (Fin (3600001 / 10000)))])]) init_state ''Mo'' =
     Inr init_state \<and>
   scan_planet (JObj [(''Mo'', JObj [(''degree'', JNum (Fin (- 1 / 10000)))])]) init_state ''Mo'' =
     Inr init_state"
  using
    degree_filter_boundaries [of "[(''Mo'', JObj [(''degree'', JNum (Fin 360))])]" "''Mo''"
      "[(''degree'', JNum (Fin 360))]" 360 init_state]
    degree_filter_boundaries [of "[(''Mo'', JObj [(''degree'', JNum (Fin 0))])]" "''Mo''"
      "[(''degree'', JNum (Fin 0))]" 0 init_state]
    degree_filter_boundaries [of "[(''Mo'', JObj [(''degree'', JNum (Fin (3600001 / 10000)))])]" "''Mo''"
      "[(''degree'', JNum (Fin (3600001 / 10000)))]" "3600001 / 10000" init_state]
    degree_filter_boundaries [of "[(''Mo'', JObj [(''degree'', JNum (Fin (- 1 / 10000)))])]" "''Mo''"
      "[(''degree'', JNum (Fin (- 1 / 10000)))]" "- 1 / 10000" init_state]
  by (simp add: init_state_def js_gt_def)

theorem atmakarak_is_largest_degree_witness:
  "calculateAtmakarak
     (chart_of [(''Su'', 12), (''Mo'', 200), (''Ma'', 5), (''Me'', 359), (''Ju'', 0),
                (''Ve'', 77), (''Sa'', 300)]) = ''Mercury''"
  using atmakarak_is_largest_degree
    [of "chart_of [(''Su'', 12), (''Mo'', 200), (''Ma'', 5), (''Me'', 359), (''Ju'', 0),
                   (''Ve'', 77), (''Sa'', 300)]" "''Me''"]
  by (simp add: chart_of_def planets_def planetNames_def)

theorem tie_goes_to_earliest_witness:
  "calculateAtmakarak
     (chart_of [(''Su'', 200), (''Mo'', 10), (''Ma'', 200), (''Me'', 20), (''Ju'', 30),
                (''Ve'', 40), (''Sa'', 50)]) = ''Sun''"
  using tie_goes_to_earliest
    [of 0 "chart_of [(''Su'', 200), (''Mo'', 10), (''Ma'', 200), (''Me'', 20), (''Ju'', 30),
                     (''Ve'', 40), (''Sa'', 50)]" 200]
  by (simp add: chart_of_def planets_def planetNames_def)

text \<open>
  Claim C2 as stated fails when the shared largest degree is 0 and the Sun has no valid
  degree: with Moon and Mars both at 0 and nothing else, the earliest holder is the Moon
  and the function returns \<open>Sun\<close>.
\<close>

theorem tie_at_zero_counterexample:
  "map (spec_valid_degree (chart_of [(''Mo'', 0), (''Ma'', 0)])) planets =
     [None, Some 0, Some 0, None, None, None, None] \<and>
   calculateAtmakarak (chart_of [(''Mo'', 0), (''Ma'', 0)]) = ''Sun''"
  by (simp add: chart_of_def planets_def calculateAtmakarak_def calculateAtmakarak_try_def
      scan_planet_def init_state_def parseFloat_String_def isNaN_def js_ge_def js_le_def
      js_gt_def planetNames_def)

theorem no_valid_degree_gives_sun_witness:
  "calculateAtmakarak_try (chart_of [(''Su'', 400), (''Mo'', - 1)]) = Inr ''Sun'' \<and>
   calculateAtmakarak (chart_of [(''Su'', 400), (''Mo'', - 1)]) = ''Sun''"
  using no_valid_degree_gives_sun [of "chart_of [(''Su'', 400), (''Mo'', - 1)]"]
  by (simp add: chart_of_def planets_def)

theorem zero_degree_planet_loses_to_sun_witness:
  "calculateAtmakarak (chart_of [(''Mo'', 0)]) = ''Sun''"
  using zero_degree_planet_loses_to_sun [of "''Mo''" "chart_of [(''Mo'', 0)]"]
  by (simp add: chart_of_def planets_def)

theorem calculateAtmakarak_total_witness:
  "calculateAtmakarak_try JNull = Inr (calculateAtmakarak JNull) \<and>
   calculateAtmakarak JNull \<in> set planet_full_names"
  by (rule calculateAtmakarak_total)

theorem versions_agree_on_valid_charts_witness:
  "calculateAtmakarak_coercing (\<lambda>v. NaN)
     (chart_of [(''Su'', 12), (''Mo'', 200), (''Ma'', 5), (''Me'', 359), (''Ju'', 0),
                (''Ve'', 77), (''Sa'', 300)]) =
   Inr (calculateAtmakarak
     (chart_of [(''Su'', 12), (''Mo'', 200), (''Ma'', 5), (''Me'', 359), (''Ju'', 0),
                (''Ve'', 77), (''Sa'', 300)]))"
  using versions_agree_on_valid_charts
    [of "chart_of [(''Su'', 12), (''Mo'', 200), (''Ma'', 5), (''Me'', 359), (''Ju'', 0),
                   (''Ve'', 77), (''Sa'', 300)]" "\<lambda>v. NaN"]
  by (simp add: chart_of_def planets_def)

section \<open>Validation of a single bad field\<close>

lemmas validate_eval = v8_date_year_def validateAstrologyInput_def check_date_def check_time_def
  check_lat_def check_lng_def check_timezone_def dateRegex_test_def timeRegex_test_def digits_def
  is_digit_def getFullYear_def js_gt_def isNaN_def Number_digits_def digit_val_def




















lemmas spec_eval = spec_date_valid_def spec_time_valid_def spec_in_range_def spec_date_of_def
  spec_time_of_def spec_days_in_month_def spec_leap_year_def spec_day_past_month_def


text \<open>
  The case left aside: the 30th of February is not a day of the calendar, and the
  validator, whose only test of the day is that the engine parses the string, reports
  nothing.
\<close>

lemma day_past_month_accepted:
  "\<not> spec_date_valid (JStr ''1990-02-30'') \<and> spec_day_past_month (JStr ''1990-02-30'') \<and>
   validateAstrologyInput v8_date_year (JStr ''1990-02-30'') (JStr ''14:30:00'')
     (JNum (Fin (286 / 10))) (JNum (Fin (772 / 10))) (JNum (Fin (11 / 2))) = []"
  by (simp add: validate_eval spec_eval)


section \<open>Rejection before the external call\<close>


lemma str_includes_append: "str_includes s sub \<Longrightarrow> str_includes (p @ s) sub"
  by (induction p) simp_all




lemma accepted_input_calls_once:
  assumes "validateAstrologyInput (parseDate env) d t lat lng (default_timezone tz) = []"
    and "getBirthChart env = Some routine"
    and "template_literal [d, t, lat, lng] = Inr ()"
  shows "fst (getVedicAstrologyData env d t lat lng tz) = [(d, t, lat, lng, default_timezone tz)]"
  using assms
  by (simp add: getVedicAstrologyData_def getVedicAstrologyData_try_def Let_def
      split: sum.splits prod.splits)


lemmas service_eval = getVedicAstrologyData_def getVedicAstrologyData_try_def conversion_error_def
  default_timezone_def read_prop_def validateInput_def check_dateOfBirth_def
  check_timeOfBirth_def check_lat_body_def check_lng_body_def

text \<open>
  Claim C8 at a valid request while the package is not loaded: the service throws its
  "currently unavailable" error, and the endpoint answers with status 500, not 503.
\<close>

theorem unavailable_package_answered_500:
  "snd (getVedicAstrologyData no_package_env (JStr ''1990-06-15'') (JStr ''14:30:00'')
     (JNum (Fin (286 / 10))) (JNum (Fin (772 / 10))) JUndefined) =
     Inl (JsError ''Astrology calculation service is currently unavailable'') \<and>
   post_astrology_data no_package_env example_body = Failure 500 ''Internal server error''"
  by (simp add: post_astrology_data_def example_body_def no_package_env_def service_eval
      validate_eval)

lemma accepted_example:
  "status (post_astrology_data example_env example_body) = 200"
  by (simp add: post_astrology_data_def example_body_def example_env_def service_eval
      validate_eval rashi_or_unknown_def nullish_def chart_of_def)

section \<open>The status 503 is never sent\<close>

lemma validation_message_status:
  "str_includes msg ''Input validation failed'' \<Longrightarrow> status (error_response (JsError msg)) = 400"
  by (simp del: str_includes.simps)

lemma failed_prefix_package:
  "str_includes (''Astrology calculation failed: '' @ m) ''package'' = str_includes m ''package''"
  by simp

lemma failed_prefix_vedic:
  "str_includes (''Astrology calculation failed: '' @ m) ''vedic-astrology'' =
   str_includes m ''vedic-astrology''"
  by simp

lemma other_message_status:
  "\<not> str_includes msg ''vedic-astrology'' \<Longrightarrow> \<not> str_includes msg ''package'' \<Longrightarrow>
   status (error_response (JsError msg)) \<noteq> 503"
  by (simp del: str_includes.simps)

lemma rethrow_status: "status (error_response (rethrow ex)) \<noteq> 503"
proof (cases ex)
  case (NonError v)
  then show ?thesis by simp
next
  case (JsError m)
  consider (a) "str_includes m ''Input validation failed''"
    | (b) "\<not> str_includes m ''Input validation failed''"
          "str_includes m ''vedic-astrology'' \<or> str_includes m ''package''"
    | (c) "\<not> str_includes m ''Input validation failed''"
          "\<not> (str_includes m ''vedic-astrology'' \<or> str_includes m ''package'')"
          "str_includes m ''birth chart'' \<or> str_includes m ''meta''"
    | (d) "\<not> str_includes m ''Input validation failed''"
          "\<not> (str_includes m ''vedic-astrology'' \<or> str_includes m ''package'')"
          "\<not> (str_includes m ''birth chart'' \<or> str_includes m ''meta'')"
    by blast
  then show ?thesis
  proof cases
    case a
    then have r: "rethrow ex = JsError (''Invalid input parameters: '' @ m)"
      using JsError by (simp del: str_includes.simps)
    have "str_includes (''Invalid input parameters: '' @ m) ''Input validation failed''"
      using a by (rule str_includes_append)
    from validation_message_status [OF this] show ?thesis unfolding r by simp
  next
    case b
    then have r: "rethrow ex = JsError ''Astrology calculation service is currently unavailable''"
      using JsError by (simp del: str_includes.simps)
    show ?thesis unfolding r by simp
  next
    case c
    then have r: "rethrow ex = JsError ''Failed to generate valid birth chart data''"
      using JsError by (simp del: str_includes.simps)
    show ?thesis unfolding r by simp
  next
    case d
    then have r: "rethrow ex = JsError (''Astrology calculation failed: '' @ m)"
      using JsError by (simp del: str_includes.simps)
    have "\<not> str_includes (''Astrology calculation failed: '' @ m) ''vedic-astrology''"
      "\<not> str_includes (''Astrology calculation failed: '' @ m) ''package''"
      using d(2) unfolding failed_prefix_package failed_prefix_vedic by simp_all
    from other_message_status [OF this] show ?thesis unfolding r .
  qed
qed

lemma service_failure_rethrown:
  "snd (getVedicAstrologyData env d t lat lng tz) = Inl ex \<Longrightarrow>
   ex = conversion_error \<or> (\<exists>ex0. ex = rethrow ex0)"
  by (auto simp add: getVedicAstrologyData_def split: prod.splits sum.splits if_splits)

lemma conversion_error_status: "status (error_response conversion_error) = 500"
  by (simp add: conversion_error_def)

lemma read_prop_failure_status:
  "read_prop body k = Inl ex \<Longrightarrow> k \<in> {''dateOfBirth'', ''timeOfBirth'', ''lat'', ''lng''} \<Longrightarrow>
   status (error_response ex) = 500"
  by (cases body) (auto simp add: read_prop_def)

lemma endpoint_never_503: "status (post_astrology_data env body) \<noteq> 503"
proof -
  have "status (error_response ex) \<noteq> 503"
    if "snd (getVedicAstrologyData env d t lat lng tz) = Inl ex" for d t lat lng tz ex
    using service_failure_rethrown [OF that] rethrow_status conversion_error_status by auto
  moreover have "status (error_response ex) \<noteq> 503"
    if "read_prop body k = Inl ex" "k \<in> {''dateOfBirth'', ''timeOfBirth'', ''lat'', ''lng''}"
    for k ex
    using read_prop_failure_status [OF that] by simp
  ultimately show ?thesis
    unfolding post_astrology_data_def
    by (auto split: sum.splits simp del: error_response.simps)
qed

end
